theory Spec2Isabelle
  imports Main
begin

section \<open>The multimodal assistant of \<^verbatim>\<open>streamlit_app.py\<close>\<close>

text \<open>
  The source is one class, \<^verbatim>\<open>MultimodalAIAssistant\<close>, that dispatches an uploaded file to
  one of three collaborators. The collaborator classes (\<^verbatim>\<open>AudioTranscriber\<close>,
  \<^verbatim>\<open>PDFChatbot\<close>, \<^verbatim>\<open>QwenVLDescriptionGenerator\<close>) are imported from modules that
  are not part of the source, so they are parameters of the model: an \<open>env\<close> says, for one
  script run, what each constructor and each method does. A constructor may raise, which the
  source catches: a raised \<^verbatim>\<open>Exception\<close> is the value \<open>Inl (Exception msg)\<close>, where
  \<open>msg\<close> is \<^verbatim>\<open>str(e)\<close>. Only exceptions of the class \<^verbatim>\<open>Exception\<close> are modelled, which
  are the ones \<^verbatim>\<open>except Exception\<close> catches. A method of a constructed collaborator
  returns its value, as the interface of the collaborators has it
  (\<^verbatim>\<open>transcribe(filePath) -> text\<close>, \<^verbatim>\<open>chat(question, sessionId) -> {answer: text}\<close>,
  \<^verbatim>\<open>clearHistory(sessionId) -> void\<close>, \<^verbatim>\<open>generateDescription(imagePath) -> text\<close>).
\<close>

subsection \<open>Data\<close>

datatype exn = Exception string

text \<open>A collaborator object; instances of user classes are truthy in Python.\<close>

datatype obj = Obj nat

record env =
  AudioTranscriber :: "exn + obj"
  PDFChatbot :: "string \<Rightarrow> string \<Rightarrow> exn + obj"
  QwenVLDescriptionGenerator :: "exn + obj"
  transcribe :: "obj \<Rightarrow> string \<Rightarrow> string"
  chat :: "obj \<Rightarrow> string \<Rightarrow> string \<Rightarrow> string"
  generate_description :: "obj \<Rightarrow> string \<Rightarrow> string"

text \<open>
  \<open>chat env h prompt sid\<close> stands for \<^verbatim>\<open>h.chat(prompt, sid)['answer']\<close>: the call together
  with the lookup of the answer. \<^verbatim>\<open>clear_history\<close> returns nothing and acts on the
  collaborator's own memory only, so the model records the call and no more.
\<close>

text \<open>One entry of \<^verbatim>\<open>pdf_chat_messages\<close>: the dict \<^verbatim>\<open>{"role": ..., "content": ...}\<close>.\<close>

record message =
  role :: string
  content :: string

text \<open>
  What a run lets the outside see: the messages and results it shows, and the calls it makes
  to the collaborators, in order. The widgets drawn on every run whatever the state (titles,
  the input widgets themselves, the spinner) are not recorded.
\<close>

datatype event =
    St_success string
  | St_warning string
  | St_error string
  | St_subheader string
  | St_write string
  | St_chat_message string string
  | New_AudioTranscriber
  | New_PDFChatbot string string
  | New_QwenVLDescriptionGenerator
  | Call_transcribe obj string
  | Call_chat obj string string
  | Call_clear_history obj string
  | Call_generate_description obj string

text \<open>
  \<^verbatim>\<open>st.session_state\<close> as the dict it is: \<open>None\<close> is a missing key. The values of
  \<^verbatim>\<open>current_pdf_path\<close> and \<^verbatim>\<open>google_api_key\<close> are themselves \<^verbatim>\<open>None\<close> or a string.
\<close>

record session_store =
  ss_session_id :: "string option"
  ss_pdf_chat_messages :: "message list option"
  ss_current_pdf_path :: "string option option"
  ss_google_api_key :: "string option option"

text \<open>What outlives a script run: the session's store and the files on disk.\<close>

record world =
  store :: session_store
  disk :: "string \<rightharpoonup> string"

text \<open>
  The state of one run after \<^verbatim>\<open>__init__\<close>: the four keys of the session store (all present
  from then on), the three attributes of \<^verbatim>\<open>self\<close>, the files on disk and the events so far.
\<close>

record state =
  session_id :: string
  pdf_chat_messages :: "message list"
  current_pdf_path :: "string option"
  google_api_key :: "string option"
  audio_transcriber :: "obj option"
  pdf_chatbot :: "obj option"
  image_description_generator :: "obj option"
  files :: "string \<rightharpoonup> string"
  events :: "event list"

text \<open>The values of the widgets in one run.\<close>

record inputs =
  api_key_input :: string
  clear_button :: bool
  uploaded_file :: "(string \<times> string) option"
  processing_mode :: string
  chat_input :: "string option"

subsection \<open>Library functions the source calls\<close>

text \<open>\<^verbatim>\<open>str.rfind\<close> for a single character: the highest index, or \<open>-1\<close>.\<close>

fun rfind :: "char \<Rightarrow> string \<Rightarrow> int" where
  "rfind c [] = - 1"
| "rfind c (x # xs) =
     (let r = rfind c xs in if 0 \<le> r then r + 1 else if x = c then 0 else - 1)"

text \<open>
  \<^verbatim>\<open>os.path.splitext\<close> (posix): the extension starts at the last dot, when that dot comes
  after the last slash and some character between the two is not a dot.
\<close>

function splitext_loop :: "string \<Rightarrow> nat \<Rightarrow> nat \<Rightarrow> string \<times> string" where
  "splitext_loop p filenameIndex dotIndex =
     (if filenameIndex < dotIndex then
        (if take 1 (drop filenameIndex p) \<noteq> ''.'' then (take dotIndex p, drop dotIndex p)
         else splitext_loop p (filenameIndex + 1) dotIndex)
      else (p, []))"
  by pat_completeness auto
termination
  by (relation "measure (\<lambda>(p, filenameIndex, dotIndex). dotIndex - filenameIndex)") auto

declare splitext_loop.simps [simp del]

definition splitext :: "string \<Rightarrow> string \<times> string" where
  "splitext p =
     (let sepIndex = rfind CHR ''/'' p; dotIndex = rfind CHR ''.'' p
      in if sepIndex < dotIndex then splitext_loop p (nat (sepIndex + 1)) (nat dotIndex)
         else (p, []))"

text \<open>
  \<^verbatim>\<open>str.lower\<close> on the ASCII letters. A string here is a list of bytes; no character
  outside ASCII lowers to one of the letters of the extensions the source tests for.
\<close>

definition lower_char :: "char \<Rightarrow> char" where
  "lower_char c =
     (case map_of (zip ''ABCDEFGHIJKLMNOPQRSTUVWXYZ'' ''abcdefghijklmnopqrstuvwxyz'') c of
        None \<Rightarrow> c
      | Some d \<Rightarrow> d)"

definition lower :: "string \<Rightarrow> string" where
  "lower s = map lower_char s"

text \<open>\<^verbatim>\<open>os.path.join(a, b)\<close> (posix) for two components.\<close>

definition path_join :: "string \<Rightarrow> string \<Rightarrow> string" where
  "path_join a b =
     (if take 1 b = ''/'' then b
      else if a = [] \<or> take 1 (rev a) = ''/'' then a @ b
      else a @ ''/'' @ b)"

subsection \<open>The methods of \<^verbatim>\<open>MultimodalAIAssistant\<close>\<close>

definition emit :: "event \<Rightarrow> state \<Rightarrow> state" where
  "emit e s = s\<lparr>events := events s @ [e]\<rparr>"

text \<open>
  \<^verbatim>\<open>__init__\<close>: each key of the session store is set only when it is missing; the three
  attributes are set to \<^verbatim>\<open>None\<close> each time. \<open>uuid\<close> is the value of \<^verbatim>\<open>str(uuid.uuid4())\<close>.
\<close>

definition init :: "string \<Rightarrow> world \<Rightarrow> state" where
  "init uuid w =
     \<lparr>session_id = (case ss_session_id (store w) of None \<Rightarrow> uuid | Some v \<Rightarrow> v),
      pdf_chat_messages = (case ss_pdf_chat_messages (store w) of None \<Rightarrow> [] | Some v \<Rightarrow> v),
      current_pdf_path = (case ss_current_pdf_path (store w) of None \<Rightarrow> None | Some v \<Rightarrow> v),
      google_api_key = (case ss_google_api_key (store w) of None \<Rightarrow> None | Some v \<Rightarrow> v),
      audio_transcriber = None,
      pdf_chatbot = None,
      image_description_generator = None,
      files = disk w,
      events = []\<rparr>"

text \<open>What a run leaves behind for the next one.\<close>

definition world_of :: "state \<Rightarrow> world" where
  "world_of s =
     \<lparr>store = \<lparr>ss_session_id = Some (session_id s),
                ss_pdf_chat_messages = Some (pdf_chat_messages s),
                ss_current_pdf_path = Some (current_pdf_path s),
                ss_google_api_key = Some (google_api_key s)\<rparr>,
      disk = files s\<rparr>"

definition load_audio_transcriber :: "env \<Rightarrow> state \<Rightarrow> state" where
  "load_audio_transcriber env s =
     (case audio_transcriber s of
        Some h \<Rightarrow> s
      | None \<Rightarrow>
          (case AudioTranscriber env of
             Inr h \<Rightarrow>
               emit (St_success ''Audio Transcriber initialized successfully!'')
                 ((emit New_AudioTranscriber s)\<lparr>audio_transcriber := Some h\<rparr>)
           | Inl (Exception e) \<Rightarrow>
               emit (St_error (''Failed to load Audio Transcriber: '' @ e))
                 (emit New_AudioTranscriber s)))"

text \<open>
  \<^verbatim>\<open>load_pdf_chatbot\<close> returns the handle, or \<^verbatim>\<open>None\<close>. The key is unset when it is
  \<^verbatim>\<open>None\<close> or the empty string. Lines 62 to 64 run before the constructor is called.
\<close>

definition load_pdf_chatbot :: "env \<Rightarrow> string \<Rightarrow> state \<Rightarrow> state \<times> obj option" where
  "load_pdf_chatbot env pdf_path s =
     (case google_api_key s of
        None \<Rightarrow> (emit (St_warning ''Please enter Google API key first!'') s, None)
      | Some key \<Rightarrow>
          if key = [] then (emit (St_warning ''Please enter Google API key first!'') s, None)
          else
            let s1 = (if current_pdf_path s \<noteq> Some pdf_path
                      then s\<lparr>pdf_chat_messages := [], current_pdf_path := Some pdf_path\<rparr>
                      else s);
                s2 = emit (New_PDFChatbot pdf_path key) s1
            in (case PDFChatbot env pdf_path key of
                  Inr h \<Rightarrow>
                    (emit (St_success ''PDF Chatbot initialized successfully!'')
                       (s2\<lparr>pdf_chatbot := Some h\<rparr>), Some h)
                | Inl (Exception e) \<Rightarrow>
                    (emit (St_error (''Failed to load PDF Chatbot: '' @ e)) s2, None)))"

definition load_image_description_generator :: "env \<Rightarrow> state \<Rightarrow> state" where
  "load_image_description_generator env s =
     (case image_description_generator s of
        Some h \<Rightarrow> s
      | None \<Rightarrow>
          (case QwenVLDescriptionGenerator env of
             Inr h \<Rightarrow>
               emit (St_success ''Image Description Generator initialized successfully!'')
                 ((emit New_QwenVLDescriptionGenerator s)\<lparr>image_description_generator := Some h\<rparr>)
           | Inl (Exception e) \<Rightarrow>
               emit (St_error (''Failed to load Image Description Generator: '' @ e))
                 (emit New_QwenVLDescriptionGenerator s)))"

text \<open>
  \<^verbatim>\<open>render_sidebar\<close>: \<open>api_key_input\<close> is what the text input returns in this run (the
  stored key or the empty string is only its default), \<open>clear_button\<close> whether the button
  was pressed.
\<close>

definition render_sidebar :: "inputs \<Rightarrow> state \<Rightarrow> state" where
  "render_sidebar inp s =
     (let s1 = (if api_key_input inp \<noteq> [] then s\<lparr>google_api_key := Some (api_key_input inp)\<rparr>
                else s)
      in if clear_button inp then
           (let s2 = (case pdf_chatbot s1 of
                        Some h \<Rightarrow> emit (Call_clear_history h (session_id s1)) s1
                      | None \<Rightarrow> s1)
            in emit (St_success ''Conversation history cleared!'') (s2\<lparr>pdf_chat_messages := []\<rparr>))
         else s1)"

text \<open>The loop of lines 124 to 126, which shows the stored messages.\<close>

fun display_messages :: "message list \<Rightarrow> state \<Rightarrow> state" where
  "display_messages [] s = s"
| "display_messages (m # ms) s = display_messages ms (emit (St_chat_message (role m) (content m)) s)"

definition render_pdf_chat_interface :: "env \<Rightarrow> inputs \<Rightarrow> string \<Rightarrow> state \<Rightarrow> state" where
  "render_pdf_chat_interface env inp file_path s =
     (let (s1, r) = load_pdf_chatbot env file_path s;
          s2 = s1\<lparr>pdf_chatbot := r\<rparr>
      in case r of
           None \<Rightarrow> s2
         | Some h \<Rightarrow>
             (let s3 = display_messages (pdf_chat_messages s2) s2
              in case chat_input inp of
                   None \<Rightarrow> s3
                 | Some prompt \<Rightarrow>
                     if prompt = [] then s3
                     else
                       let s4 = s3\<lparr>pdf_chat_messages :=
                                    pdf_chat_messages s3 @ [\<lparr>role = ''user'', content = prompt\<rparr>]\<rparr>;
                           s5 = emit (St_chat_message ''user'' prompt) s4;
                           s6 = emit (Call_chat h prompt (session_id s5)) s5;
                           response = chat env h prompt (session_id s5);
                           s7 = emit (St_chat_message ''assistant'' response) s6
                       in s7\<lparr>pdf_chat_messages :=
                               pdf_chat_messages s7 @
                                 [\<lparr>role = ''assistant'', content = response\<rparr>]\<rparr>))"

text \<open>Line 184: the extension of the uploaded file's name, lowered.\<close>

definition file_extension :: "string \<Rightarrow> string" where
  "file_extension name = lower (snd (splitext name))"

text \<open>Lines 187 to 193: what \<^verbatim>\<open>processing_mode\<close> is after the auto-detection.\<close>

definition resolve_mode :: "string \<Rightarrow> string \<Rightarrow> string" where
  "resolve_mode mode ext =
     (if mode = ''Auto Detect'' then
        (if ext \<in> set [''.pdf''] then ''Question Answering''
         else if ext \<in> set [''.jpg'', ''.jpeg'', ''.png''] then ''Image Description''
         else if ext \<in> set [''.mp3'', ''.wav'', ''.mp4'', ''.avi''] then ''Transcription''
         else mode)
      else mode)"

text \<open>Lines 196 to 211: the dispatch on the resolved mode and the extension.\<close>

definition process :: "env \<Rightarrow> inputs \<Rightarrow> string \<Rightarrow> string \<Rightarrow> string \<Rightarrow> state \<Rightarrow> state" where
  "process env inp mode ext file_path s =
     (if mode = ''Question Answering'' \<and> ext = ''.pdf'' then
        render_pdf_chat_interface env inp file_path s
      else if mode = ''Transcription'' \<and> ext \<in> set [''.mp3'', ''.wav'', ''.mp4'', ''.avi''] then
        (let s1 = load_audio_transcriber env s
         in case audio_transcriber s1 of
              None \<Rightarrow> s1
            | Some h \<Rightarrow>
                (let s2 = emit (Call_transcribe h file_path) s1;
                     transcription = transcribe env h file_path
                 in emit (St_write transcription) (emit (St_subheader ''Transcription'') s2)))
      else if mode = ''Image Description'' \<and> ext \<in> set [''.jpg'', ''.jpeg'', ''.png''] then
        (let s1 = load_image_description_generator env s
         in case image_description_generator s1 of
              None \<Rightarrow> s1
            | Some h \<Rightarrow>
                (let s2 = emit (Call_generate_description h file_path) s1;
                     description = generate_description env h file_path
                 in emit (St_write description) (emit (St_subheader ''Image Description'') s2)))
      else s)"

text \<open>Lines 176 to 181: the upload is written under \<^verbatim>\<open>temp\<close>, by its own name.\<close>

definition save_upload :: "string \<Rightarrow> string \<Rightarrow> state \<Rightarrow> state" where
  "save_upload name bytes s = s\<lparr>files := (files s)(path_join ''temp'' name \<mapsto> bytes)\<rparr>"

definition main_ui :: "env \<Rightarrow> inputs \<Rightarrow> state \<Rightarrow> state" where
  "main_ui env inp s =
     (case uploaded_file inp of
        None \<Rightarrow> s
      | Some (name, bytes) \<Rightarrow>
          (let s1 = save_upload name bytes s;
               file_path = path_join ''temp'' name;
               ext = file_extension name;
               mode = resolve_mode (processing_mode inp) ext
           in process env inp mode ext file_path s1))"

definition run :: "env \<Rightarrow> inputs \<Rightarrow> state \<Rightarrow> state" where
  "run env inp s = main_ui env inp (render_sidebar inp s)"

text \<open>
  \<^verbatim>\<open>main\<close>: a new assistant over the session's store, then \<^verbatim>\<open>run\<close>. The result is the
  world the run leaves, and what it showed and called.
\<close>

definition main :: "env \<Rightarrow> string \<Rightarrow> inputs \<Rightarrow> world \<Rightarrow> world \<times> event list" where
  "main env uuid inp w = (let s = run env inp (init uuid w) in (world_of s, events s))"

text \<open>
  A session is a sequence of runs of \<^verbatim>\<open>main\<close> over the same store (this is why
  \<^verbatim>\<open>__init__\<close> tests each key before setting it). Each run has its own environment, fresh
  uuid and widget values; the events of the runs are put together in order.
\<close>

fun session_runs :: "(env \<times> string \<times> inputs) list \<Rightarrow> world \<Rightarrow> world \<times> event list" where
  "session_runs [] w = (w, [])"
| "session_runs ((env, uuid, inp) # rs) w =
     (let (w1, evs) = main env uuid inp w;
          (w2, evs2) = session_runs rs w1
      in (w2, evs @ evs2))"

text \<open>
  A non-empty credential is stored: the key \<^verbatim>\<open>google_api_key\<close> is present and its value
  is a non-empty string (what \<^verbatim>\<open>load_pdf_chatbot\<close> takes as set).
\<close>

definition credential_set :: "world \<Rightarrow> bool" where
  "credential_set w =
     (case ss_google_api_key (store w) of
        Some (Some key) \<Rightarrow> key \<noteq> []
      | _ \<Rightarrow> False)"

subsection \<open>Concrete inputs\<close>

text \<open>An environment where every constructor succeeds, and one where every constructor raises.\<close>

definition ex_env :: env where
  "ex_env =
     \<lparr>AudioTranscriber = Inr (Obj 4),
      PDFChatbot = (\<lambda>pdf_path key. Inr (Obj 5)),
      QwenVLDescriptionGenerator = Inr (Obj 6),
      transcribe = (\<lambda>h file_path. ''hello world''),
      chat = (\<lambda>h prompt sid. ''It is a report.''),
      generate_description = (\<lambda>h file_path. ''a cat on a mat'')\<rparr>"

definition ex_env_failing :: env where
  "ex_env_failing =
     \<lparr>AudioTranscriber = Inl (Exception ''no model''),
      PDFChatbot = (\<lambda>pdf_path key. Inl (Exception ''bad key'')),
      QwenVLDescriptionGenerator = Inl (Exception ''no model''),
      transcribe = (\<lambda>h file_path. []),
      chat = (\<lambda>h prompt sid. []),
      generate_description = (\<lambda>h file_path. [])\<rparr>"

text \<open>A session before its first run: no key in the store, nothing on disk.\<close>

definition new_session :: world where
  "new_session =
     \<lparr>store = \<lparr>ss_session_id = None, ss_pdf_chat_messages = None,
                ss_current_pdf_path = None, ss_google_api_key = None\<rparr>,
      disk = Map.empty\<rparr>"

definition ex_state :: state where
  "ex_state = init ''s-1'' new_session"

text \<open>A state in the middle of a conversation about \<^verbatim>\<open>temp/old.pdf\<close>, with a handle.\<close>

definition ex_chat_state :: state where
  "ex_chat_state =
     \<lparr>session_id = ''s-1'',
      pdf_chat_messages = [\<lparr>role = ''user'', content = ''Who wrote it?''\<rparr>,
                           \<lparr>role = ''assistant'', content = ''Nobody knows.''\<rparr>],
      current_pdf_path = Some ''temp/old.pdf'',
      google_api_key = Some ''key-1'',
      audio_transcriber = None,
      pdf_chatbot = Some (Obj 7),
      image_description_generator = None,
      files = Map.empty,
      events = []\<rparr>"

definition ex_upload :: "string \<Rightarrow> string \<Rightarrow> inputs" where
  "ex_upload name mode =
     \<lparr>api_key_input = [], clear_button = False, uploaded_file = Some (name, ''data''),
      processing_mode = mode, chat_input = None\<rparr>"

text \<open>A run in which only the clear-history button is pressed.\<close>

definition ex_clear :: inputs where
  "ex_clear =
     \<lparr>api_key_input = [], clear_button = True, uploaded_file = None,
      processing_mode = ''Auto Detect'', chat_input = None\<rparr>"

text \<open>A run that uploads \<^verbatim>\<open>report.pdf\<close> and asks a question about it.\<close>

definition ex_ask :: inputs where
  "ex_ask =
     \<lparr>api_key_input = [], clear_button = False, uploaded_file = Some (''report.pdf'', ''data''),
      processing_mode = ''Auto Detect'', chat_input = Some ''What is the summary?''\<rparr>"

text \<open>A session whose store holds a key, as a conversation leaves it.\<close>

definition ex_keyed_session :: world where
  "ex_keyed_session = world_of ex_chat_state"

section \<open>Properties\<close>

subsection \<open>Auxiliary facts\<close>

lemma ex_state_eq:
  "ex_state = \<lparr>session_id = ''s-1'', pdf_chat_messages = [], current_pdf_path = None,
     google_api_key = None, audio_transcriber = None, pdf_chatbot = None,
     image_description_generator = None, files = Map.empty, events = []\<rparr>"
  by (simp add: ex_state_def init_def new_session_def)

text \<open>What \<open>emit\<close> and the display loop change: the events, and nothing else.\<close>

lemma emit_fields [simp]:
  "session_id (emit e s) = session_id s"
  "pdf_chat_messages (emit e s) = pdf_chat_messages s"
  "current_pdf_path (emit e s) = current_pdf_path s"
  "google_api_key (emit e s) = google_api_key s"
  "audio_transcriber (emit e s) = audio_transcriber s"
  "pdf_chatbot (emit e s) = pdf_chatbot s"
  "image_description_generator (emit e s) = image_description_generator s"
  "files (emit e s) = files s"
  "events (emit e s) = events s @ [e]"
  by (simp_all add: emit_def)

lemma display_messages_eq:
  "display_messages ms s =
     s\<lparr>events := events s @ map (\<lambda>m. St_chat_message (role m) (content m)) ms\<rparr>"
  by (induction ms arbitrary: s) (simp_all add: emit_def)

lemma display_messages_fields [simp]:
  "session_id (display_messages ms s) = session_id s"
  "pdf_chat_messages (display_messages ms s) = pdf_chat_messages s"
  "current_pdf_path (display_messages ms s) = current_pdf_path s"
  "google_api_key (display_messages ms s) = google_api_key s"
  "audio_transcriber (display_messages ms s) = audio_transcriber s"
  "pdf_chatbot (display_messages ms s) = pdf_chatbot s"
  "image_description_generator (display_messages ms s) = image_description_generator s"
  "files (display_messages ms s) = files s"
  by (simp_all add: display_messages_eq)

text \<open>What \<^verbatim>\<open>load_pdf_chatbot\<close> does in each of its three outcomes.\<close>

lemma load_pdf_chatbot_unset:
  "google_api_key s = None \<or> google_api_key s = Some [] \<Longrightarrow>
   load_pdf_chatbot env p s = (emit (St_warning ''Please enter Google API key first!'') s, None)"
  by (auto simp add: load_pdf_chatbot_def)

lemma load_pdf_chatbot_built:
  "google_api_key s = Some key \<Longrightarrow> key \<noteq> [] \<Longrightarrow> PDFChatbot env p key = Inr h \<Longrightarrow>
   load_pdf_chatbot env p s =
     ((if current_pdf_path s \<noteq> Some p
       then s\<lparr>pdf_chat_messages := [], current_pdf_path := Some p\<rparr> else s)
        \<lparr>pdf_chatbot := Some h,
         events := events s @ [New_PDFChatbot p key,
                               St_success ''PDF Chatbot initialized successfully!'']\<rparr>, Some h)"
  by (simp add: load_pdf_chatbot_def emit_def)

lemma load_pdf_chatbot_failed:
  "google_api_key s = Some key \<Longrightarrow> key \<noteq> [] \<Longrightarrow> PDFChatbot env p key = Inl (Exception e) \<Longrightarrow>
   load_pdf_chatbot env p s =
     ((if current_pdf_path s \<noteq> Some p
       then s\<lparr>pdf_chat_messages := [], current_pdf_path := Some p\<rparr> else s)
        \<lparr>events := events s @ [New_PDFChatbot p key,
                               St_error (''Failed to load PDF Chatbot: '' @ e)]\<rparr>, None)"
  by (simp add: load_pdf_chatbot_def emit_def)

lemma load_pdf_chatbot_cases:
  obtains (unset) "google_api_key s = None \<or> google_api_key s = Some []"
  | (built) key h where "google_api_key s = Some key" "key \<noteq> []" "PDFChatbot env p key = Inr h"
  | (failed) key e where "google_api_key s = Some key" "key \<noteq> []"
      "PDFChatbot env p key = Inl (Exception e)"
proof (cases "google_api_key s")
  case None
  then show ?thesis using unset by simp
next
  case (Some key)
  show ?thesis
  proof (cases "key = []")
    case True
    then show ?thesis using Some unset by simp
  next
    case False
    show ?thesis
    proof (cases "PDFChatbot env p key")
      case (Inl x)
      then show ?thesis using Some False failed by (cases x) auto
    next
      case (Inr h)
      then show ?thesis using Some False built by auto
    qed
  qed
qed

lemma load_pdf_chatbot_key [simp]:
  "google_api_key (fst (load_pdf_chatbot env p s)) = google_api_key s"
  by (cases rule: load_pdf_chatbot_cases [where s = s and env = env and p = p])
    (simp_all add: load_pdf_chatbot_unset load_pdf_chatbot_built load_pdf_chatbot_failed)

lemma load_pdf_chatbot_path_changed:
  "current_pdf_path (fst (load_pdf_chatbot env p s)) \<noteq> current_pdf_path s \<Longrightarrow>
   pdf_chat_messages (fst (load_pdf_chatbot env p s)) = []"
  by (cases rule: load_pdf_chatbot_cases [where s = s and env = env and p = p])
    (auto simp add: load_pdf_chatbot_unset load_pdf_chatbot_built load_pdf_chatbot_failed
      split: if_splits)

lemma load_pdf_chatbot_reset:
  assumes "google_api_key s = Some key" and "key \<noteq> []" and "current_pdf_path s \<noteq> Some p"
  shows "pdf_chat_messages (fst (load_pdf_chatbot env p s)) = []"
    and "current_pdf_path (fst (load_pdf_chatbot env p s)) = Some p"
proof -
  have "pdf_chat_messages (fst (load_pdf_chatbot env p s)) = [] \<and>
      current_pdf_path (fst (load_pdf_chatbot env p s)) = Some p"
  proof (cases "PDFChatbot env p key")
    case (Inl x)
    obtain e where "x = Exception e" by (cases x)
    with Inl assms show ?thesis by (simp add: load_pdf_chatbot_failed)
  next
    case (Inr h)
    with assms show ?thesis by (simp add: load_pdf_chatbot_built)
  qed
  then show "pdf_chat_messages (fst (load_pdf_chatbot env p s)) = []"
    and "current_pdf_path (fst (load_pdf_chatbot env p s)) = Some p"
    by simp_all
qed

text \<open>What \<^verbatim>\<open>render_pdf_chat_interface\<close> does after each outcome of the load.\<close>

lemma render_pdf_unset:
  "google_api_key s = None \<or> google_api_key s = Some [] \<Longrightarrow>
   render_pdf_chat_interface env inp p s =
     s\<lparr>pdf_chatbot := None,
       events := events s @ [St_warning ''Please enter Google API key first!'']\<rparr>"
  by (simp add: render_pdf_chat_interface_def load_pdf_chatbot_unset emit_def)

lemma render_pdf_failed:
  "google_api_key s = Some key \<Longrightarrow> key \<noteq> [] \<Longrightarrow> PDFChatbot env p key = Inl (Exception e) \<Longrightarrow>
   render_pdf_chat_interface env inp p s =
     (if current_pdf_path s \<noteq> Some p
       then s\<lparr>pdf_chat_messages := [], current_pdf_path := Some p\<rparr> else s)
        \<lparr>pdf_chatbot := None,
         events := events s @ [New_PDFChatbot p key,
                               St_error (''Failed to load PDF Chatbot: '' @ e)]\<rparr>"
  by (simp add: render_pdf_chat_interface_def load_pdf_chatbot_failed)

lemma render_pdf_turn:
  assumes "google_api_key s = Some key" "key \<noteq> []" "PDFChatbot env p key = Inr h"
    and "chat_input inp = Some q" "q \<noteq> []"
  shows "pdf_chat_messages (render_pdf_chat_interface env inp p s) =
     (if current_pdf_path s \<noteq> Some p then [] else pdf_chat_messages s) @
       [\<lparr>role = ''user'', content = q\<rparr>,
        \<lparr>role = ''assistant'', content = chat env h q (session_id s)\<rparr>]"
  using assms
  by (simp add: render_pdf_chat_interface_def load_pdf_chatbot_built Let_def)

lemma render_pdf_no_turn:
  assumes "google_api_key s = Some key" "key \<noteq> []" "PDFChatbot env p key = Inr h"
    and "chat_input inp = None \<or> chat_input inp = Some []"
  shows "pdf_chat_messages (render_pdf_chat_interface env inp p s) =
     (if current_pdf_path s \<noteq> Some p then [] else pdf_chat_messages s)"
  using assms
  by (auto simp add: render_pdf_chat_interface_def load_pdf_chatbot_built Let_def)

lemma render_pdf_path:
  "current_pdf_path (render_pdf_chat_interface env inp p s) =
   current_pdf_path (fst (load_pdf_chatbot env p s))"
  by (cases rule: load_pdf_chatbot_cases [where s = s and env = env and p = p])
    (auto simp add: render_pdf_chat_interface_def load_pdf_chatbot_unset load_pdf_chatbot_built
      load_pdf_chatbot_failed Let_def split: option.splits)

lemma render_pdf_key [simp]:
  "google_api_key (render_pdf_chat_interface env inp p s) = google_api_key s"
  by (cases rule: load_pdf_chatbot_cases [where s = s and env = env and p = p])
    (auto simp add: render_pdf_chat_interface_def load_pdf_chatbot_unset load_pdf_chatbot_built
      load_pdf_chatbot_failed Let_def split: option.splits)

text \<open>The extension and the scratch path of the file names used as examples.\<close>

lemma file_extension_examples:
  "file_extension ''report.pdf'' = ''.pdf''"
  "file_extension ''photo.JPG'' = ''.jpg''"
  "file_extension ''clip.mp4'' = ''.mp4''"
  "file_extension ''notes.txt'' = ''.txt''"
  by (simp_all add: file_extension_def splitext_def splitext_loop.simps lower_def lower_char_def)

lemma path_join_temp_examples:
  "path_join ''temp'' ''report.pdf'' = ''temp/report.pdf''"
  "path_join ''temp'' ''photo.JPG'' = ''temp/photo.JPG''"
  "path_join ''temp'' ''clip.mp4'' = ''temp/clip.mp4''"
  "path_join ''temp'' ''notes.txt'' = ''temp/notes.txt''"
  by (simp_all add: path_join_def)

text \<open>The two lazy loads change the events and their own handle only.\<close>

lemma load_audio_transcriber_frame [simp]:
  "session_id (load_audio_transcriber env s) = session_id s"
  "pdf_chat_messages (load_audio_transcriber env s) = pdf_chat_messages s"
  "current_pdf_path (load_audio_transcriber env s) = current_pdf_path s"
  "google_api_key (load_audio_transcriber env s) = google_api_key s"
  "pdf_chatbot (load_audio_transcriber env s) = pdf_chatbot s"
  "image_description_generator (load_audio_transcriber env s) = image_description_generator s"
  "files (load_audio_transcriber env s) = files s"
  by (simp_all add: load_audio_transcriber_def split: option.splits sum.splits exn.splits)

lemma load_image_description_generator_frame [simp]:
  "session_id (load_image_description_generator env s) = session_id s"
  "pdf_chat_messages (load_image_description_generator env s) = pdf_chat_messages s"
  "current_pdf_path (load_image_description_generator env s) = current_pdf_path s"
  "google_api_key (load_image_description_generator env s) = google_api_key s"
  "pdf_chatbot (load_image_description_generator env s) = pdf_chatbot s"
  "audio_transcriber (load_image_description_generator env s) = audio_transcriber s"
  "files (load_image_description_generator env s) = files s"
  by (simp_all add: load_image_description_generator_def
      split: option.splits sum.splits exn.splits)

text \<open>The three branches of the dispatch, and what is left when none is taken.\<close>

lemma process_qa:
  "process env inp ''Question Answering'' ''.pdf'' p s = render_pdf_chat_interface env inp p s"
  by (simp add: process_def)

lemma process_transcription:
  "ext \<in> set [''.mp3'', ''.wav'', ''.mp4'', ''.avi''] \<Longrightarrow>
   process env inp ''Transcription'' ext p s =
     (case audio_transcriber (load_audio_transcriber env s) of
        None \<Rightarrow> load_audio_transcriber env s
      | Some h \<Rightarrow>
          (load_audio_transcriber env s)
            \<lparr>events := events (load_audio_transcriber env s) @
               [Call_transcribe h p, St_subheader ''Transcription'',
                St_write (transcribe env h p)]\<rparr>)"
  by (simp add: process_def Let_def emit_def split: option.splits)

lemma process_image:
  "ext \<in> set [''.jpg'', ''.jpeg'', ''.png''] \<Longrightarrow>
   process env inp ''Image Description'' ext p s =
     (case image_description_generator (load_image_description_generator env s) of
        None \<Rightarrow> load_image_description_generator env s
      | Some h \<Rightarrow>
          (load_image_description_generator env s)
            \<lparr>events := events (load_image_description_generator env s) @
               [Call_generate_description h p, St_subheader ''Image Description'',
                St_write (generate_description env h p)]\<rparr>)"
  by (simp add: process_def Let_def emit_def split: option.splits)

lemma process_none:
  "\<not> (mode = ''Question Answering'' \<and> ext = ''.pdf'') \<Longrightarrow>
   \<not> (mode = ''Transcription'' \<and> ext \<in> set [''.mp3'', ''.wav'', ''.mp4'', ''.avi'']) \<Longrightarrow>
   \<not> (mode = ''Image Description'' \<and> ext \<in> set [''.jpg'', ''.jpeg'', ''.png'']) \<Longrightarrow>
   process env inp mode ext p s = s"
  unfolding process_def by (simp only: if_False)

lemma main_ui_upload:
  "uploaded_file inp = Some (name, bytes) \<Longrightarrow>
   main_ui env inp s =
     process env inp (resolve_mode (processing_mode inp) (file_extension name))
       (file_extension name) (path_join ''temp'' name) (save_upload name bytes s)"
  by (simp add: main_ui_def Let_def)

lemma resolve_mode_auto:
  "resolve_mode ''Auto Detect'' ext =
     (if ext = ''.pdf'' then ''Question Answering''
      else if ext \<in> set [''.jpg'', ''.jpeg'', ''.png''] then ''Image Description''
      else if ext \<in> set [''.mp3'', ''.wav'', ''.mp4'', ''.avi''] then ''Transcription''
      else ''Auto Detect'')"
  by (simp add: resolve_mode_def)

lemma resolve_mode_explicit:
  "mode \<noteq> ''Auto Detect'' \<Longrightarrow> resolve_mode mode ext = mode"
  by (simp add: resolve_mode_def)

text \<open>What the sidebar leaves alone, and what it does with the key.\<close>

lemma render_sidebar_frame [simp]:
  "session_id (render_sidebar inp s) = session_id s"
  "current_pdf_path (render_sidebar inp s) = current_pdf_path s"
  "audio_transcriber (render_sidebar inp s) = audio_transcriber s"
  "pdf_chatbot (render_sidebar inp s) = pdf_chatbot s"
  "image_description_generator (render_sidebar inp s) = image_description_generator s"
  "files (render_sidebar inp s) = files s"
  by (simp_all add: render_sidebar_def Let_def split: option.splits)

lemma render_sidebar_key:
  "google_api_key (render_sidebar inp s) =
     (if api_key_input inp \<noteq> [] then Some (api_key_input inp) else google_api_key s)"
  by (simp add: render_sidebar_def Let_def split: option.splits)

text \<open>A change of the stored path, followed through the flow, the dispatch and the run.\<close>

lemma render_pdf_path_changed:
  assumes "current_pdf_path (render_pdf_chat_interface env inp p s) \<noteq> current_pdf_path s"
  shows "pdf_chat_messages (render_pdf_chat_interface env inp p s) = [] \<or>
         (\<exists>q a. pdf_chat_messages (render_pdf_chat_interface env inp p s) =
            [\<lparr>role = ''user'', content = q\<rparr>, \<lparr>role = ''assistant'', content = a\<rparr>])"
proof (cases rule: load_pdf_chatbot_cases [where s = s and env = env and p = p])
  case unset
  then show ?thesis using assms by (simp add: render_pdf_unset)
next
  case (failed key e)
  then show ?thesis using assms by (simp add: render_pdf_failed split: if_splits)
next
  case (built key h)
  have ch: "current_pdf_path s \<noteq> Some p"
    using assms built by (auto simp add: render_pdf_path load_pdf_chatbot_built split: if_splits)
  show ?thesis
  proof (cases "chat_input inp = None \<or> chat_input inp = Some []")
    case True
    then show ?thesis using built ch by (simp add: render_pdf_no_turn)
  next
    case False
    then obtain q where "chat_input inp = Some q" "q \<noteq> []" by auto
    then show ?thesis using built ch by (simp add: render_pdf_turn)
  qed
qed

lemma process_not_qa:
  assumes "\<not> (mode = ''Question Answering'' \<and> ext = ''.pdf'')"
  shows "pdf_chat_messages (process env inp mode ext p s) = pdf_chat_messages s"
    and "current_pdf_path (process env inp mode ext p s) = current_pdf_path s"
    and "google_api_key (process env inp mode ext p s) = google_api_key s"
proof -
  consider (t) "mode = ''Transcription''" "ext \<in> set [''.mp3'', ''.wav'', ''.mp4'', ''.avi'']"
    | (i) "mode = ''Image Description''" "ext \<in> set [''.jpg'', ''.jpeg'', ''.png'']"
    | (n) "\<not> (mode = ''Transcription'' \<and> ext \<in> set [''.mp3'', ''.wav'', ''.mp4'', ''.avi''])"
          "\<not> (mode = ''Image Description'' \<and> ext \<in> set [''.jpg'', ''.jpeg'', ''.png''])"
    by blast
  then have "pdf_chat_messages (process env inp mode ext p s) = pdf_chat_messages s \<and>
      current_pdf_path (process env inp mode ext p s) = current_pdf_path s \<and>
      google_api_key (process env inp mode ext p s) = google_api_key s"
  proof cases
    case t
    then show ?thesis by (simp add: process_transcription split: option.splits)
  next
    case i
    then show ?thesis by (simp add: process_image split: option.splits)
  next
    case n
    then show ?thesis using assms by (simp add: process_none)
  qed
  then show "pdf_chat_messages (process env inp mode ext p s) = pdf_chat_messages s"
    and "current_pdf_path (process env inp mode ext p s) = current_pdf_path s"
    and "google_api_key (process env inp mode ext p s) = google_api_key s"
    by simp_all
qed

lemma process_path_changed:
  assumes "current_pdf_path (process env inp mode ext p s) \<noteq> current_pdf_path s"
  shows "pdf_chat_messages (process env inp mode ext p s) = [] \<or>
         (\<exists>q a. pdf_chat_messages (process env inp mode ext p s) =
            [\<lparr>role = ''user'', content = q\<rparr>, \<lparr>role = ''assistant'', content = a\<rparr>])"
proof (cases "mode = ''Question Answering'' \<and> ext = ''.pdf''")
  case True
  then show ?thesis using assms render_pdf_path_changed [of env inp p s]
    by (simp add: process_qa)
next
  case False
  then have "current_pdf_path (process env inp mode ext p s) = current_pdf_path s"
    by (rule process_not_qa)
  then show ?thesis using assms by simp
qed

lemma run_path_changed:
  assumes "current_pdf_path (run env inp s) \<noteq> current_pdf_path s"
  shows "pdf_chat_messages (run env inp s) = [] \<or>
         (\<exists>q a. pdf_chat_messages (run env inp s) =
            [\<lparr>role = ''user'', content = q\<rparr>, \<lparr>role = ''assistant'', content = a\<rparr>])"
proof (cases "uploaded_file inp")
  case None
  then show ?thesis using assms by (simp add: run_def main_ui_def)
next
  case (Some u)
  obtain name bytes where u: "u = (name, bytes)" by (cases u)
  note ui = main_ui_upload [of inp name bytes env "render_sidebar inp s"]
  have "current_pdf_path (save_upload name bytes (render_sidebar inp s)) = current_pdf_path s"
    by (simp add: save_upload_def)
  then show ?thesis
    using assms Some u ui
      process_path_changed [of env inp "resolve_mode (processing_mode inp) (file_extension name)"
        "file_extension name" "path_join ''temp'' name" "save_upload name bytes (render_sidebar inp s)"]
    by (simp add: run_def)
qed

text \<open>The outcomes of the two lazy loads.\<close>

lemma load_audio_transcriber_failed:
  "audio_transcriber s = None \<Longrightarrow> AudioTranscriber env = Inl (Exception e) \<Longrightarrow>
   load_audio_transcriber env s =
     s\<lparr>events := events s @
        [New_AudioTranscriber, St_error (''Failed to load Audio Transcriber: '' @ e)]\<rparr>"
  by (simp add: load_audio_transcriber_def emit_def)

lemma load_audio_transcriber_built:
  "audio_transcriber s = None \<Longrightarrow> AudioTranscriber env = Inr h \<Longrightarrow>
   load_audio_transcriber env s =
     s\<lparr>audio_transcriber := Some h,
       events := events s @
        [New_AudioTranscriber, St_success ''Audio Transcriber initialized successfully!'']\<rparr>"
  by (simp add: load_audio_transcriber_def emit_def)

lemma load_audio_transcriber_reuse:
  "audio_transcriber s = Some h \<Longrightarrow> load_audio_transcriber env s = s"
  by (simp add: load_audio_transcriber_def)

lemma load_image_description_generator_failed:
  "image_description_generator s = None \<Longrightarrow>
   QwenVLDescriptionGenerator env = Inl (Exception e) \<Longrightarrow>
   load_image_description_generator env s =
     s\<lparr>events := events s @
        [New_QwenVLDescriptionGenerator,
         St_error (''Failed to load Image Description Generator: '' @ e)]\<rparr>"
  by (simp add: load_image_description_generator_def emit_def)

lemma load_image_description_generator_built:
  "image_description_generator s = None \<Longrightarrow> QwenVLDescriptionGenerator env = Inr h \<Longrightarrow>
   load_image_description_generator env s =
     s\<lparr>image_description_generator := Some h,
       events := events s @
        [New_QwenVLDescriptionGenerator,
         St_success ''Image Description Generator initialized successfully!'']\<rparr>"
  by (simp add: load_image_description_generator_def emit_def)

lemma load_image_description_generator_reuse:
  "image_description_generator s = Some h \<Longrightarrow> load_image_description_generator env s = s"
  by (simp add: load_image_description_generator_def)

text \<open>The stored key through a run of \<^verbatim>\<open>main\<close> and through a session.\<close>

lemma process_key [simp]:
  "google_api_key (process env inp mode ext p s) = google_api_key s"
proof (cases "mode = ''Question Answering'' \<and> ext = ''.pdf''")
  case True
  then show ?thesis by (simp add: process_qa)
next
  case False
  then show ?thesis by (rule process_not_qa)
qed

lemma main_ui_key [simp]:
  "google_api_key (main_ui env inp s) = google_api_key s"
proof (cases "uploaded_file inp")
  case None
  then show ?thesis by (simp add: main_ui_def)
next
  case (Some u)
  obtain name bytes where "u = (name, bytes)" by (cases u)
  with Some show ?thesis by (simp add: main_ui_upload save_upload_def)
qed

lemma run_key:
  "google_api_key (run env inp s) =
     (if api_key_input inp \<noteq> [] then Some (api_key_input inp) else google_api_key s)"
  by (simp add: run_def render_sidebar_key)

lemma main_key:
  "ss_google_api_key (store (fst (main env uuid inp w))) =
     Some (if api_key_input inp \<noteq> [] then Some (api_key_input inp)
           else (case ss_google_api_key (store w) of None \<Rightarrow> None | Some v \<Rightarrow> v))"
  by (simp add: main_def Let_def world_of_def run_key init_def)

lemma main_credential_set:
  "credential_set w \<Longrightarrow> credential_set (fst (main env uuid inp w))"
  by (auto simp add: credential_set_def main_key split: option.splits)

lemma main_key_unchanged:
  "credential_set w \<Longrightarrow> api_key_input inp = [] \<Longrightarrow>
   ss_google_api_key (store (fst (main env uuid inp w))) = ss_google_api_key (store w)"
  by (auto simp add: credential_set_def main_key split: option.splits)

lemma session_runs_Cons:
  "fst (session_runs ((env, uuid, inp) # rs) w) =
     fst (session_runs rs (fst (main env uuid inp w)))"
  by (simp add: split_beta Let_def)

lemma session_runs_credential:
  "credential_set w \<Longrightarrow>
   credential_set (fst (session_runs rs w)) \<and>
   ((\<forall>r \<in> set rs. api_key_input (snd (snd r)) = []) \<longrightarrow>
      ss_google_api_key (store (fst (session_runs rs w))) = ss_google_api_key (store w))"
proof (induction rs arbitrary: w)
  case Nil
  then show ?case by simp
next
  case (Cons r rs)
  obtain env uuid inp where r: "r = (env, uuid, inp)" by (cases r)
  let ?w1 = "fst (main env uuid inp w)"
  have cs: "credential_set ?w1"
    using Cons.prems by (rule main_credential_set)
  note ih = Cons.IH [OF cs]
  show ?case
    using ih main_key_unchanged [OF Cons.prems, of inp env uuid]
    by (simp add: r session_runs_Cons del: session_runs.simps)
qed

text \<open>The events of one run that uploads \<^verbatim>\<open>clip.mp4\<close> under \<^verbatim>\<open>Auto Detect\<close>.\<close>

lemma main_clip_events:
  "snd (main ex_env uuid (ex_upload ''clip.mp4'' ''Auto Detect'') w) =
     [New_AudioTranscriber, St_success ''Audio Transcriber initialized successfully!'',
      Call_transcribe (Obj 4) ''temp/clip.mp4'', St_subheader ''Transcription'',
      St_write ''hello world'']"
proof -
  let ?inp = "ex_upload ''clip.mp4'' ''Auto Detect''"
  let ?s = "save_upload ''clip.mp4'' ''data'' (init uuid w)"
  have sb: "render_sidebar ?inp (init uuid w) = init uuid w"
    by (simp add: render_sidebar_def ex_upload_def)
  have up: "uploaded_file ?inp = Some (''clip.mp4'', ''data'')"
    by (simp add: ex_upload_def)
  have md: "resolve_mode (processing_mode ?inp) ''.mp4'' = ''Transcription''"
    by (simp add: ex_upload_def resolve_mode_auto)
  have none: "audio_transcriber ?s = None" and ev: "events ?s = []"
    by (simp_all add: save_upload_def init_def)
  have ctor: "AudioTranscriber ex_env = Inr (Obj 4)"
    and tr: "transcribe ex_env (Obj 4) ''temp/clip.mp4'' = ''hello world''"
    by (simp_all add: ex_env_def)
  have ui: "main_ui ex_env ?inp (init uuid w) =
      process ex_env ?inp ''Transcription'' ''.mp4'' ''temp/clip.mp4'' ?s"
    using main_ui_upload [OF up, of ex_env "init uuid w"]
    by (simp add: md file_extension_examples path_join_temp_examples)
  have "events (process ex_env ?inp ''Transcription'' ''.mp4'' ''temp/clip.mp4'' ?s) =
      [New_AudioTranscriber, St_success ''Audio Transcriber initialized successfully!'',
       Call_transcribe (Obj 4) ''temp/clip.mp4'', St_subheader ''Transcription'',
       St_write ''hello world'']"
    by (simp add: process_transcription load_audio_transcriber_built [OF none ctor] ev tr)
  then show ?thesis
    by (simp add: main_def Let_def run_def sb ui)
qed

text \<open>The events of one run that uploads \<^verbatim>\<open>photo.JPG\<close> under \<^verbatim>\<open>Auto Detect\<close>.\<close>

lemma main_photo_events:
  "snd (main ex_env uuid (ex_upload ''photo.JPG'' ''Auto Detect'') w) =
     [New_QwenVLDescriptionGenerator,
      St_success ''Image Description Generator initialized successfully!'',
      Call_generate_description (Obj 6) ''temp/photo.JPG'', St_subheader ''Image Description'',
      St_write ''a cat on a mat'']"
proof -
  let ?inp = "ex_upload ''photo.JPG'' ''Auto Detect''"
  let ?s = "save_upload ''photo.JPG'' ''data'' (init uuid w)"
  have sb: "render_sidebar ?inp (init uuid w) = init uuid w"
    by (simp add: render_sidebar_def ex_upload_def)
  have up: "uploaded_file ?inp = Some (''photo.JPG'', ''data'')"
    by (simp add: ex_upload_def)
  have md: "resolve_mode (processing_mode ?inp) ''.jpg'' = ''Image Description''"
    by (simp add: ex_upload_def resolve_mode_auto)
  have none: "image_description_generator ?s = None" and ev: "events ?s = []"
    by (simp_all add: save_upload_def init_def)
  have ctor: "QwenVLDescriptionGenerator ex_env = Inr (Obj 6)"
    and gd: "generate_description ex_env (Obj 6) ''temp/photo.JPG'' = ''a cat on a mat''"
    by (simp_all add: ex_env_def)
  have ui: "main_ui ex_env ?inp (init uuid w) =
      process ex_env ?inp ''Image Description'' ''.jpg'' ''temp/photo.JPG'' ?s"
    using main_ui_upload [OF up, of ex_env "init uuid w"]
    by (simp add: md file_extension_examples path_join_temp_examples)
  have "events (process ex_env ?inp ''Image Description'' ''.jpg'' ''temp/photo.JPG'' ?s) =
      [New_QwenVLDescriptionGenerator,
       St_success ''Image Description Generator initialized successfully!'',
       Call_generate_description (Obj 6) ''temp/photo.JPG'', St_subheader ''Image Description'',
       St_write ''a cat on a mat'']"
    by (simp add: process_image load_image_description_generator_built [OF none ctor] ev gd)
  then show ?thesis
    by (simp add: main_def Let_def run_def sb ui)
qed

subsection \<open>Routing\<close>

text \<open>
  C1. With the mode \<^verbatim>\<open>Auto Detect\<close>, the mode after auto-detection is
  \<^verbatim>\<open>Question Answering\<close> for the extension \<^verbatim>\<open>.pdf\<close>, \<^verbatim>\<open>Image Description\<close> for
  \<^verbatim>\<open>.jpg\<close>, \<^verbatim>\<open>.jpeg\<close> and \<^verbatim>\<open>.png\<close>, and \<^verbatim>\<open>Transcription\<close> for \<^verbatim>\<open>.mp3\<close>,
  \<^verbatim>\<open>.wav\<close>, \<^verbatim>\<open>.mp4\<close> and \<^verbatim>\<open>.avi\<close>, and \<^verbatim>\<open>main_ui\<close> takes that flow. For any other
  extension (\<^verbatim>\<open>.txt\<close> among them) the mode stays \<^verbatim>\<open>Auto Detect\<close> and \<^verbatim>\<open>main_ui\<close> does
  nothing after it has written the upload to disk: no event, so no collaborator is called,
  and no other field changes.
\<close>

theorem auto_detect_table:
  assumes "uploaded_file inp = Some (name, bytes)"
    and "processing_mode inp = ''Auto Detect''"
  shows "(file_extension name = ''.pdf'' \<longrightarrow>
            resolve_mode (processing_mode inp) (file_extension name) = ''Question Answering'' \<and>
            main_ui env inp s =
              render_pdf_chat_interface env inp (path_join ''temp'' name) (save_upload name bytes s)) \<and>
         (file_extension name \<in> set [''.jpg'', ''.jpeg'', ''.png''] \<longrightarrow>
            resolve_mode (processing_mode inp) (file_extension name) = ''Image Description'' \<and>
            main_ui env inp s =
              process env inp ''Image Description'' (file_extension name) (path_join ''temp'' name)
                (save_upload name bytes s)) \<and>
         (file_extension name \<in> set [''.mp3'', ''.wav'', ''.mp4'', ''.avi''] \<longrightarrow>
            resolve_mode (processing_mode inp) (file_extension name) = ''Transcription'' \<and>
            main_ui env inp s =
              process env inp ''Transcription'' (file_extension name) (path_join ''temp'' name)
                (save_upload name bytes s)) \<and>
         (file_extension name \<notin>
            set [''.pdf'', ''.jpg'', ''.jpeg'', ''.png'', ''.mp3'', ''.wav'', ''.mp4'', ''.avi''] \<longrightarrow>
            resolve_mode (processing_mode inp) (file_extension name) = ''Auto Detect'' \<and>
            main_ui env inp s = s\<lparr>files := (files s)(path_join ''temp'' name \<mapsto> bytes)\<rparr>)"
proof -
  let ?ext = "file_extension name"
  note ui = main_ui_upload [OF assms(1), of env s, unfolded assms(2)]
  have pdf: "?ext = ''.pdf'' \<Longrightarrow> resolve_mode ''Auto Detect'' ?ext = ''Question Answering''"
    by (simp add: resolve_mode_auto)
  have img: "?ext \<in> set [''.jpg'', ''.jpeg'', ''.png''] \<Longrightarrow>
      resolve_mode ''Auto Detect'' ?ext = ''Image Description''"
    by (auto simp add: resolve_mode_auto)
  have av: "?ext \<in> set [''.mp3'', ''.wav'', ''.mp4'', ''.avi''] \<Longrightarrow>
      resolve_mode ''Auto Detect'' ?ext = ''Transcription''"
    by (auto simp add: resolve_mode_auto)
  have other: "?ext \<notin> set [''.pdf'', ''.jpg'', ''.jpeg'', ''.png'', ''.mp3'', ''.wav'', ''.mp4'', ''.avi''] \<Longrightarrow>
      resolve_mode ''Auto Detect'' ?ext = ''Auto Detect''"
    by (simp add: resolve_mode_auto)
  have noop: "process env inp ''Auto Detect'' e p t = t" for e p t
    by (simp add: process_none)
  have c1: "?ext = ''.pdf'' \<Longrightarrow> main_ui env inp s =
      render_pdf_chat_interface env inp (path_join ''temp'' name) (save_upload name bytes s)"
    using ui pdf by (simp add: process_qa)
  have c4: "?ext \<notin> set [''.pdf'', ''.jpg'', ''.jpeg'', ''.png'', ''.mp3'', ''.wav'', ''.mp4'', ''.avi''] \<Longrightarrow>
      main_ui env inp s = s\<lparr>files := (files s)(path_join ''temp'' name \<mapsto> bytes)\<rparr>"
  proof -
    assume a: "?ext \<notin> set [''.pdf'', ''.jpg'', ''.jpeg'', ''.png'', ''.mp3'', ''.wav'', ''.mp4'', ''.avi'']"
    show ?thesis
      unfolding ui other [OF a] noop save_upload_def ..
  qed
  show ?thesis
    using assms(2) ui pdf img av other c1 c4 by metis
qed

theorem auto_detect_table_witness:
  "uploaded_file (ex_upload ''report.pdf'' ''Auto Detect'') = Some (''report.pdf'', ''data'') \<and>
   processing_mode (ex_upload ''report.pdf'' ''Auto Detect'') = ''Auto Detect'' \<and>
   file_extension ''report.pdf'' = ''.pdf'' \<and>
   resolve_mode ''Auto Detect'' (file_extension ''report.pdf'') = ''Question Answering'' \<and>
   file_extension ''photo.JPG'' \<in> set [''.jpg'', ''.jpeg'', ''.png''] \<and>
   resolve_mode ''Auto Detect'' (file_extension ''photo.JPG'') = ''Image Description'' \<and>
   file_extension ''clip.mp4'' \<in> set [''.mp3'', ''.wav'', ''.mp4'', ''.avi''] \<and>
   resolve_mode ''Auto Detect'' (file_extension ''clip.mp4'') = ''Transcription'' \<and>
   file_extension ''notes.txt'' \<notin>
     set [''.pdf'', ''.jpg'', ''.jpeg'', ''.png'', ''.mp3'', ''.wav'', ''.mp4'', ''.avi''] \<and>
   main_ui ex_env (ex_upload ''notes.txt'' ''Auto Detect'') ex_state =
     ex_state\<lparr>files := [''temp/notes.txt'' \<mapsto> ''data'']\<rparr>"
  using auto_detect_table [of "ex_upload ''report.pdf'' ''Auto Detect''" "''report.pdf''" "''data''"
      ex_env ex_state]
    auto_detect_table [of "ex_upload ''photo.JPG'' ''Auto Detect''" "''photo.JPG''" "''data''"
      ex_env ex_state]
    auto_detect_table [of "ex_upload ''clip.mp4'' ''Auto Detect''" "''clip.mp4''" "''data''"
      ex_env ex_state]
    auto_detect_table [of "ex_upload ''notes.txt'' ''Auto Detect''" "''notes.txt''" "''data''"
      ex_env ex_state]
  by (simp add: ex_upload_def file_extension_examples path_join_temp_examples ex_state_eq)

text \<open>
  C6. When the selected mode and the extension do not go together (\<^verbatim>\<open>Question Answering\<close>
  with an extension other than \<^verbatim>\<open>.pdf\<close>, \<^verbatim>\<open>Transcription\<close> or \<^verbatim>\<open>Image Description\<close>
  with an extension outside its list, \<^verbatim>\<open>Auto Detect\<close> with an extension in none of the
  lists), \<^verbatim>\<open>main_ui\<close> writes the upload to disk and does nothing else: the events are as
  before, so no collaborator is called and no error, warning or result is shown, and every
  other field is as before.
\<close>

theorem mismatch_is_noop:
  assumes "uploaded_file inp = Some (name, bytes)"
    and "processing_mode inp = ''Question Answering'' \<and> file_extension name \<noteq> ''.pdf'' \<or>
         processing_mode inp = ''Transcription'' \<and>
           file_extension name \<notin> set [''.mp3'', ''.wav'', ''.mp4'', ''.avi''] \<or>
         processing_mode inp = ''Image Description'' \<and>
           file_extension name \<notin> set [''.jpg'', ''.jpeg'', ''.png''] \<or>
         processing_mode inp = ''Auto Detect'' \<and>
           file_extension name \<notin>
             set [''.pdf'', ''.jpg'', ''.jpeg'', ''.png'', ''.mp3'', ''.wav'', ''.mp4'', ''.avi'']"
  shows "main_ui env inp s = s\<lparr>files := (files s)(path_join ''temp'' name \<mapsto> bytes)\<rparr>"
proof -
  let ?ext = "file_extension name"
  let ?mode = "resolve_mode (processing_mode inp) ?ext"
  have m: "?mode = processing_mode inp"
    using assms(2) by (auto simp add: resolve_mode_auto resolve_mode_explicit)
  have "process env inp ?mode ?ext (path_join ''temp'' name) (save_upload name bytes s) =
      save_upload name bytes s"
    unfolding m using assms(2) by (intro process_none) auto
  then show ?thesis
    by (simp add: main_ui_upload [OF assms(1)] save_upload_def)
qed

theorem mismatch_is_noop_witness:
  "uploaded_file (ex_upload ''notes.txt'' ''Question Answering'') = Some (''notes.txt'', ''data'') \<and>
   processing_mode (ex_upload ''notes.txt'' ''Question Answering'') = ''Question Answering'' \<and>
   file_extension ''notes.txt'' \<noteq> ''.pdf'' \<and>
   main_ui ex_env (ex_upload ''notes.txt'' ''Question Answering'') ex_chat_state =
     ex_chat_state\<lparr>files := [''temp/notes.txt'' \<mapsto> ''data'']\<rparr> \<and>
   processing_mode (ex_upload ''report.pdf'' ''Transcription'') = ''Transcription'' \<and>
   file_extension ''report.pdf'' \<notin> set [''.mp3'', ''.wav'', ''.mp4'', ''.avi''] \<and>
   main_ui ex_env (ex_upload ''report.pdf'' ''Transcription'') ex_chat_state =
     ex_chat_state\<lparr>files := [''temp/report.pdf'' \<mapsto> ''data'']\<rparr>"
  using mismatch_is_noop [of "ex_upload ''notes.txt'' ''Question Answering''" "''notes.txt''"
      "''data''" ex_env ex_chat_state]
    mismatch_is_noop [of "ex_upload ''report.pdf'' ''Transcription''" "''report.pdf''"
      "''data''" ex_env ex_chat_state]
  by (simp add: ex_upload_def file_extension_examples path_join_temp_examples ex_chat_state_def)

text \<open>
  C5. When the resolved mode is \<^verbatim>\<open>Transcription\<close> or \<^verbatim>\<open>Image Description\<close> and the
  extension is in that mode's list, \<^verbatim>\<open>main_ui\<close> leaves \<^verbatim>\<open>pdf_chat_messages\<close> and
  \<^verbatim>\<open>current_pdf_path\<close> as they were. When the handle is there, the events end with the
  call to the collaborator and the display of its result under the subheader; nothing is
  added to the transcript.
\<close>

theorem transcription_image_frame:
  assumes "uploaded_file inp = Some (name, bytes)"
    and "resolve_mode (processing_mode inp) (file_extension name) = ''Transcription'' \<and>
           file_extension name \<in> set [''.mp3'', ''.wav'', ''.mp4'', ''.avi''] \<or>
         resolve_mode (processing_mode inp) (file_extension name) = ''Image Description'' \<and>
           file_extension name \<in> set [''.jpg'', ''.jpeg'', ''.png'']"
  shows "pdf_chat_messages (main_ui env inp s) = pdf_chat_messages s \<and>
         current_pdf_path (main_ui env inp s) = current_pdf_path s \<and>
         (resolve_mode (processing_mode inp) (file_extension name) = ''Transcription'' \<longrightarrow>
            (\<forall>h. audio_transcriber (main_ui env inp s) = Some h \<longrightarrow>
               events (main_ui env inp s) =
                 events (load_audio_transcriber env (save_upload name bytes s)) @
                   [Call_transcribe h (path_join ''temp'' name), St_subheader ''Transcription'',
                    St_write (transcribe env h (path_join ''temp'' name))])) \<and>
         (resolve_mode (processing_mode inp) (file_extension name) = ''Image Description'' \<longrightarrow>
            (\<forall>h. image_description_generator (main_ui env inp s) = Some h \<longrightarrow>
               events (main_ui env inp s) =
                 events (load_image_description_generator env (save_upload name bytes s)) @
                   [Call_generate_description h (path_join ''temp'' name),
                    St_subheader ''Image Description'',
                    St_write (generate_description env h (path_join ''temp'' name))]))"
  using assms(2)
proof
  assume a: "resolve_mode (processing_mode inp) (file_extension name) = ''Transcription'' \<and>
           file_extension name \<in> set [''.mp3'', ''.wav'', ''.mp4'', ''.avi'']"
  then have "main_ui env inp s =
      (case audio_transcriber (load_audio_transcriber env (save_upload name bytes s)) of
        None \<Rightarrow> load_audio_transcriber env (save_upload name bytes s)
      | Some h \<Rightarrow>
          (load_audio_transcriber env (save_upload name bytes s))
            \<lparr>events := events (load_audio_transcriber env (save_upload name bytes s)) @
               [Call_transcribe h (path_join ''temp'' name), St_subheader ''Transcription'',
                St_write (transcribe env h (path_join ''temp'' name))]\<rparr>)"
    by (simp only: main_ui_upload [OF assms(1)] process_transcription)
  with a show ?thesis
    by (simp add: save_upload_def split: option.splits)
next
  assume a: "resolve_mode (processing_mode inp) (file_extension name) = ''Image Description'' \<and>
           file_extension name \<in> set [''.jpg'', ''.jpeg'', ''.png'']"
  then have "main_ui env inp s =
      (case image_description_generator
              (load_image_description_generator env (save_upload name bytes s)) of
        None \<Rightarrow> load_image_description_generator env (save_upload name bytes s)
      | Some h \<Rightarrow>
          (load_image_description_generator env (save_upload name bytes s))
            \<lparr>events := events (load_image_description_generator env (save_upload name bytes s)) @
               [Call_generate_description h (path_join ''temp'' name),
                St_subheader ''Image Description'',
                St_write (generate_description env h (path_join ''temp'' name))]\<rparr>)"
    by (simp only: main_ui_upload [OF assms(1)] process_image)
  with a show ?thesis
    by (simp add: save_upload_def split: option.splits)
qed

theorem transcription_image_frame_witness:
  "uploaded_file (ex_upload ''clip.mp4'' ''Auto Detect'') = Some (''clip.mp4'', ''data'') \<and>
   resolve_mode (processing_mode (ex_upload ''clip.mp4'' ''Auto Detect''))
     (file_extension ''clip.mp4'') = ''Transcription'' \<and>
   file_extension ''clip.mp4'' \<in> set [''.mp3'', ''.wav'', ''.mp4'', ''.avi''] \<and>
   pdf_chat_messages (main_ui ex_env (ex_upload ''clip.mp4'' ''Auto Detect'') ex_chat_state) =
     pdf_chat_messages ex_chat_state \<and>
   current_pdf_path (main_ui ex_env (ex_upload ''clip.mp4'' ''Auto Detect'') ex_chat_state) =
     Some ''temp/old.pdf'' \<and>
   audio_transcriber (main_ui ex_env (ex_upload ''clip.mp4'' ''Auto Detect'') ex_chat_state) =
     Some (Obj 4) \<and>
   events (main_ui ex_env (ex_upload ''clip.mp4'' ''Auto Detect'') ex_chat_state) =
     [New_AudioTranscriber, St_success ''Audio Transcriber initialized successfully!'',
      Call_transcribe (Obj 4) ''temp/clip.mp4'', St_subheader ''Transcription'',
      St_write ''hello world'']"
proof -
  have ext: "file_extension ''clip.mp4'' \<in> set [''.mp3'', ''.wav'', ''.mp4'', ''.avi'']"
    by (simp add: file_extension_examples)
  have up: "uploaded_file (ex_upload ''clip.mp4'' ''Auto Detect'') = Some (''clip.mp4'', ''data'')"
    by (simp add: ex_upload_def)
  have md: "resolve_mode (processing_mode (ex_upload ''clip.mp4'' ''Auto Detect''))
     (file_extension ''clip.mp4'') = ''Transcription''"
    by (simp add: ex_upload_def file_extension_examples resolve_mode_auto)
  have ld: "load_audio_transcriber ex_env (save_upload ''clip.mp4'' ''data'' ex_chat_state) =
      (save_upload ''clip.mp4'' ''data'' ex_chat_state)
        \<lparr>audio_transcriber := Some (Obj 4),
         events := [New_AudioTranscriber,
                    St_success ''Audio Transcriber initialized successfully!'']\<rparr>"
    by (simp add: load_audio_transcriber_def save_upload_def ex_chat_state_def ex_env_def emit_def)
  have at: "audio_transcriber (main_ui ex_env (ex_upload ''clip.mp4'' ''Auto Detect'') ex_chat_state)
      = Some (Obj 4)"
    using ext md
    by (simp add: main_ui_upload [OF up] process_transcription ld)
  have tr: "transcribe ex_env (Obj 4) ''temp/clip.mp4'' = ''hello world''"
    by (simp add: ex_env_def)
  have cp: "current_pdf_path ex_chat_state = Some ''temp/old.pdf''"
    by (simp add: ex_chat_state_def)
  show ?thesis
    using transcription_image_frame [OF up, of ex_env ex_chat_state] ext md at
    by (simp add: ld path_join_temp_examples tr cp up)
qed

subsection \<open>The question-answering flow\<close>

text \<open>
  C3. When the stored key is \<^verbatim>\<open>None\<close> or empty, \<^verbatim>\<open>load_pdf_chatbot\<close> shows the warning
  and returns \<^verbatim>\<open>None\<close>; the constructor is not called (the warning is the only event) and
  the state is otherwise as before. \<^verbatim>\<open>render_pdf_chat_interface\<close> then returns at once:
  nothing is appended to the transcript and \<^verbatim>\<open>chat\<close> is not called.
\<close>

theorem no_credential_no_handle:
  assumes "google_api_key s = None \<or> google_api_key s = Some []"
  shows "load_pdf_chatbot env pdf_path s =
           (s\<lparr>events := events s @ [St_warning ''Please enter Google API key first!'']\<rparr>, None) \<and>
         render_pdf_chat_interface env inp pdf_path s =
           s\<lparr>pdf_chatbot := None,
             events := events s @ [St_warning ''Please enter Google API key first!'']\<rparr>"
  using assms by (simp add: load_pdf_chatbot_unset render_pdf_unset emit_def)

theorem no_credential_no_handle_witness:
  "(google_api_key ex_state = None \<or> google_api_key ex_state = Some []) \<and>
   render_pdf_chat_interface ex_env (ex_upload ''report.pdf'' ''Auto Detect'') ''temp/report.pdf''
       ex_state =
     ex_state\<lparr>pdf_chatbot := None,
       events := [St_warning ''Please enter Google API key first!'']\<rparr>"
  using no_credential_no_handle [of ex_state ex_env "''temp/report.pdf''"
      "ex_upload ''report.pdf'' ''Auto Detect''"]
  by (simp add: ex_state_eq)

text \<open>
  C9. When the key is set, the path differs from the stored one and the constructor raises,
  the transcript has already been emptied and the stored path already set to the new path,
  while no handle is returned: \<^verbatim>\<open>load_pdf_chatbot\<close> returns \<^verbatim>\<open>None\<close> and does not assign
  the attribute, and \<^verbatim>\<open>render_pdf_chat_interface\<close> leaves the attribute \<^verbatim>\<open>None\<close>.
\<close>

theorem failed_pdf_load_not_atomic:
  assumes "google_api_key s = Some key" and "key \<noteq> []"
    and "current_pdf_path s \<noteq> Some pdf_path"
    and "PDFChatbot env pdf_path key = Inl (Exception e)"
  shows "snd (load_pdf_chatbot env pdf_path s) = None \<and>
         pdf_chat_messages (fst (load_pdf_chatbot env pdf_path s)) = [] \<and>
         current_pdf_path (fst (load_pdf_chatbot env pdf_path s)) = Some pdf_path \<and>
         pdf_chatbot (fst (load_pdf_chatbot env pdf_path s)) = pdf_chatbot s \<and>
         pdf_chat_messages (render_pdf_chat_interface env inp pdf_path s) = [] \<and>
         current_pdf_path (render_pdf_chat_interface env inp pdf_path s) = Some pdf_path \<and>
         pdf_chatbot (render_pdf_chat_interface env inp pdf_path s) = None"
  using assms by (simp add: load_pdf_chatbot_failed render_pdf_failed)

theorem failed_pdf_load_not_atomic_witness:
  "google_api_key ex_chat_state = Some ''key-1'' \<and> ''key-1'' \<noteq> [] \<and>
   current_pdf_path ex_chat_state \<noteq> Some ''temp/new.pdf'' \<and>
   PDFChatbot ex_env_failing ''temp/new.pdf'' ''key-1'' = Inl (Exception ''bad key'') \<and>
   pdf_chat_messages ex_chat_state \<noteq> [] \<and>
   snd (load_pdf_chatbot ex_env_failing ''temp/new.pdf'' ex_chat_state) = None \<and>
   pdf_chat_messages (fst (load_pdf_chatbot ex_env_failing ''temp/new.pdf'' ex_chat_state)) = [] \<and>
   current_pdf_path (fst (load_pdf_chatbot ex_env_failing ''temp/new.pdf'' ex_chat_state)) =
     Some ''temp/new.pdf'' \<and>
   pdf_chatbot (render_pdf_chat_interface ex_env_failing ex_clear ''temp/new.pdf'' ex_chat_state) =
     None"
  using failed_pdf_load_not_atomic [of ex_chat_state "''key-1''" "''temp/new.pdf''" ex_env_failing
      "''bad key''" ex_clear]
  by (simp add: ex_chat_state_def ex_env_failing_def)

text \<open>
  C2. When the key is set and the path differs from the stored one, \<^verbatim>\<open>load_pdf_chatbot\<close>
  leaves the transcript empty and the stored path equal to the new path for every outcome
  of the constructor: lines 62 to 64 come before the call of the constructor, so the reset
  is there when the constructor raises as well as when it returns a handle. So whenever the
  load changes the stored path, the transcript it leaves is empty. After a whole run that
  changed the stored path, the transcript holds nothing from before the change: it is
  empty, or it is the one question and answer of that run. A completed turn (key set, handle
  built, a non-empty prompt) appends exactly two entries, the user's and then the
  assistant's, to the transcript as it is after the load.
\<close>

theorem transcript_reset_on_new_document:
  "(google_api_key s = Some key \<and> key \<noteq> [] \<and> current_pdf_path s \<noteq> Some p \<longrightarrow>
      pdf_chat_messages (fst (load_pdf_chatbot env p s)) = [] \<and>
      current_pdf_path (fst (load_pdf_chatbot env p s)) = Some p \<and>
      current_pdf_path (render_pdf_chat_interface env inp p s) = Some p \<and>
      (\<forall>e. PDFChatbot env p key = Inl (Exception e) \<longrightarrow>
         load_pdf_chatbot env p s =
           (s\<lparr>pdf_chat_messages := [], current_pdf_path := Some p,
              events := events s @ [New_PDFChatbot p key,
                                    St_error (''Failed to load PDF Chatbot: '' @ e)]\<rparr>, None)) \<and>
      (\<forall>h. PDFChatbot env p key = Inr h \<longrightarrow>
         load_pdf_chatbot env p s =
           (s\<lparr>pdf_chat_messages := [], current_pdf_path := Some p, pdf_chatbot := Some h,
              events := events s @ [New_PDFChatbot p key,
                                    St_success ''PDF Chatbot initialized successfully!'']\<rparr>,
            Some h))) \<and>
   (current_pdf_path (fst (load_pdf_chatbot env p s)) \<noteq> current_pdf_path s \<longrightarrow>
      pdf_chat_messages (fst (load_pdf_chatbot env p s)) = []) \<and>
   (current_pdf_path (run env inp s) \<noteq> current_pdf_path s \<longrightarrow>
      pdf_chat_messages (run env inp s) = [] \<or>
      (\<exists>q a. pdf_chat_messages (run env inp s) =
         [\<lparr>role = ''user'', content = q\<rparr>, \<lparr>role = ''assistant'', content = a\<rparr>])) \<and>
   (google_api_key s = Some key \<and> key \<noteq> [] \<and> PDFChatbot env p key = Inr h \<and>
    chat_input inp = Some q \<and> q \<noteq> [] \<longrightarrow>
      pdf_chat_messages (render_pdf_chat_interface env inp p s) =
        (if current_pdf_path s \<noteq> Some p then [] else pdf_chat_messages s) @
          [\<lparr>role = ''user'', content = q\<rparr>,
           \<lparr>role = ''assistant'', content = chat env h q (session_id s)\<rparr>])"
proof -
  have r: "pdf_chat_messages (fst (load_pdf_chatbot env p s)) = [] \<and>
      current_pdf_path (fst (load_pdf_chatbot env p s)) = Some p \<and>
      current_pdf_path (render_pdf_chat_interface env inp p s) = Some p \<and>
      (\<forall>e. PDFChatbot env p key = Inl (Exception e) \<longrightarrow>
         load_pdf_chatbot env p s =
           (s\<lparr>pdf_chat_messages := [], current_pdf_path := Some p,
              events := events s @ [New_PDFChatbot p key,
                                    St_error (''Failed to load PDF Chatbot: '' @ e)]\<rparr>, None)) \<and>
      (\<forall>h. PDFChatbot env p key = Inr h \<longrightarrow>
         load_pdf_chatbot env p s =
           (s\<lparr>pdf_chat_messages := [], current_pdf_path := Some p, pdf_chatbot := Some h,
              events := events s @ [New_PDFChatbot p key,
                                    St_success ''PDF Chatbot initialized successfully!'']\<rparr>,
            Some h))"
    if a: "google_api_key s = Some key \<and> key \<noteq> [] \<and> current_pdf_path s \<noteq> Some p"
  proof -
    from a have k: "google_api_key s = Some key" and n: "key \<noteq> []"
      and c: "current_pdf_path s \<noteq> Some p"
      by simp_all
    show ?thesis
      using load_pdf_chatbot_reset [OF k n c, of env] c
      by (simp add: render_pdf_path load_pdf_chatbot_failed [OF k n]
          load_pdf_chatbot_built [OF k n])
  qed
  show ?thesis
    using r load_pdf_chatbot_path_changed [of env p s] run_path_changed [of env inp s]
      render_pdf_turn [of s key env p h inp q]
    by blast
qed

theorem transcript_reset_on_new_document_witness:
  "google_api_key ex_chat_state = Some ''key-1'' \<and> ''key-1'' \<noteq> [] \<and>
   current_pdf_path ex_chat_state \<noteq> Some ''temp/report.pdf'' \<and>
   pdf_chat_messages ex_chat_state \<noteq> [] \<and>
   PDFChatbot ex_env_failing ''temp/report.pdf'' ''key-1'' = Inl (Exception ''bad key'') \<and>
   pdf_chat_messages (fst (load_pdf_chatbot ex_env_failing ''temp/report.pdf'' ex_chat_state)) =
     [] \<and>
   current_pdf_path (fst (load_pdf_chatbot ex_env_failing ''temp/report.pdf'' ex_chat_state)) =
     Some ''temp/report.pdf'' \<and>
   PDFChatbot ex_env ''temp/report.pdf'' ''key-1'' = Inr (Obj 5) \<and>
   pdf_chat_messages (fst (load_pdf_chatbot ex_env ''temp/report.pdf'' ex_chat_state)) = [] \<and>
   current_pdf_path (fst (load_pdf_chatbot ex_env ''temp/report.pdf'' ex_chat_state)) \<noteq>
     current_pdf_path ex_chat_state \<and>
   chat_input ex_ask = Some ''What is the summary?'' \<and> ''What is the summary?'' \<noteq> [] \<and>
   pdf_chat_messages (render_pdf_chat_interface ex_env ex_ask ''temp/report.pdf'' ex_chat_state) =
     [\<lparr>role = ''user'', content = ''What is the summary?''\<rparr>,
      \<lparr>role = ''assistant'', content = ''It is a report.''\<rparr>] \<and>
   pdf_chat_messages (render_pdf_chat_interface ex_env ex_ask ''temp/old.pdf'' ex_chat_state) =
     [\<lparr>role = ''user'', content = ''Who wrote it?''\<rparr>,
      \<lparr>role = ''assistant'', content = ''Nobody knows.''\<rparr>,
      \<lparr>role = ''user'', content = ''What is the summary?''\<rparr>,
      \<lparr>role = ''assistant'', content = ''It is a report.''\<rparr>]"
proof -
  have k: "google_api_key ex_chat_state = Some ''key-1''"
    and c: "current_pdf_path ex_chat_state = Some ''temp/old.pdf''"
    and m: "pdf_chat_messages ex_chat_state =
      [\<lparr>role = ''user'', content = ''Who wrote it?''\<rparr>,
       \<lparr>role = ''assistant'', content = ''Nobody knows.''\<rparr>]"
    by (simp_all add: ex_chat_state_def)
  have b: "PDFChatbot ex_env p ''key-1'' = Inr (Obj 5)" for p
    by (simp add: ex_env_def)
  have f: "PDFChatbot ex_env_failing p ''key-1'' = Inl (Exception ''bad key'')" for p
    by (simp add: ex_env_failing_def)
  have a: "chat ex_env h q sid = ''It is a report.''" for h q sid
    by (simp add: ex_env_def)
  have q: "chat_input ex_ask = Some ''What is the summary?''"
    by (simp add: ex_ask_def)
  have l1: "pdf_chat_messages (fst (load_pdf_chatbot ex_env_failing ''temp/report.pdf''
        ex_chat_state)) = [] \<and>
      current_pdf_path (fst (load_pdf_chatbot ex_env_failing ''temp/report.pdf'' ex_chat_state)) =
        Some ''temp/report.pdf''"
    using transcript_reset_on_new_document [of ex_chat_state "''key-1''" "''temp/report.pdf''"
        ex_env_failing ex_ask "Obj 5" "''What is the summary?''"]
    by (simp add: k c)
  have l2: "pdf_chat_messages (fst (load_pdf_chatbot ex_env ''temp/report.pdf'' ex_chat_state)) = [] \<and>
      current_pdf_path (fst (load_pdf_chatbot ex_env ''temp/report.pdf'' ex_chat_state)) \<noteq>
        current_pdf_path ex_chat_state \<and>
      pdf_chat_messages (render_pdf_chat_interface ex_env ex_ask ''temp/report.pdf''
        ex_chat_state) =
        [\<lparr>role = ''user'', content = ''What is the summary?''\<rparr>,
         \<lparr>role = ''assistant'', content = ''It is a report.''\<rparr>]"
    using transcript_reset_on_new_document [of ex_chat_state "''key-1''" "''temp/report.pdf''"
        ex_env ex_ask "Obj 5" "''What is the summary?''"]
    by (simp add: k c b a q)
  have l3: "pdf_chat_messages (render_pdf_chat_interface ex_env ex_ask ''temp/old.pdf''
        ex_chat_state) =
      [\<lparr>role = ''user'', content = ''Who wrote it?''\<rparr>,
       \<lparr>role = ''assistant'', content = ''Nobody knows.''\<rparr>,
       \<lparr>role = ''user'', content = ''What is the summary?''\<rparr>,
       \<lparr>role = ''assistant'', content = ''It is a report.''\<rparr>]"
    using transcript_reset_on_new_document [of ex_chat_state "''key-1''" "''temp/old.pdf''"
        ex_env ex_ask "Obj 5" "''What is the summary?''"]
    by (simp add: k c m b a q)
  show ?thesis
    using l1 l2 l3 by (simp add: k c m b f q)
qed

subsection \<open>The sidebar\<close>

text \<open>
  C4. When the clear-history button is pressed, \<^verbatim>\<open>render_sidebar\<close> leaves the transcript
  empty in every state, with or without a handle. Without a handle no collaborator is called;
  with a handle \<open>h\<close>, \<^verbatim>\<open>h.clear_history\<close> is called with the session identifier, before the
  success message.
\<close>

theorem clear_history_resets:
  assumes "clear_button inp"
  shows "pdf_chat_messages (render_sidebar inp s) = [] \<and>
         (pdf_chatbot s = None \<longrightarrow>
            events (render_sidebar inp s) =
              events s @ [St_success ''Conversation history cleared!'']) \<and>
         (\<forall>h. pdf_chatbot s = Some h \<longrightarrow>
            events (render_sidebar inp s) =
              events s @ [Call_clear_history h (session_id s),
                          St_success ''Conversation history cleared!''])"
  using assms by (simp add: render_sidebar_def Let_def emit_def)

theorem clear_history_resets_witness:
  "clear_button ex_clear \<and>
   pdf_chatbot ex_chat_state = Some (Obj 7) \<and> pdf_chat_messages ex_chat_state \<noteq> [] \<and>
   pdf_chat_messages (render_sidebar ex_clear ex_chat_state) = [] \<and>
   events (render_sidebar ex_clear ex_chat_state) =
     [Call_clear_history (Obj 7) ''s-1'', St_success ''Conversation history cleared!''] \<and>
   pdf_chatbot ex_state = None \<and>
   pdf_chat_messages (render_sidebar ex_clear ex_state) = [] \<and>
   events (render_sidebar ex_clear ex_state) = [St_success ''Conversation history cleared!'']"
  using clear_history_resets [of ex_clear ex_chat_state] clear_history_resets [of ex_clear ex_state]
  by (simp add: ex_clear_def ex_chat_state_def ex_state_eq)

text \<open>
  C10. Once the store holds a non-empty key, it holds one after every run of \<^verbatim>\<open>main\<close> and
  after every sequence of runs, whatever the inputs and the collaborators do. A run whose
  key input is empty leaves the stored key as it was. The key is written in two places only:
  \<^verbatim>\<open>__init__\<close> sets it to \<^verbatim>\<open>None\<close> when the key is missing from the store and keeps it
  otherwise, and \<^verbatim>\<open>render_sidebar\<close> stores a non-empty input; \<^verbatim>\<open>main_ui\<close> does not
  touch it.
\<close>

theorem credential_never_unset:
  assumes "credential_set w"
  shows "credential_set (fst (main env uuid inp w)) \<and>
         (api_key_input inp = [] \<longrightarrow>
            ss_google_api_key (store (fst (main env uuid inp w))) =
              ss_google_api_key (store w)) \<and>
         credential_set (fst (session_runs rs w)) \<and>
         ((\<forall>r \<in> set rs. api_key_input (snd (snd r)) = []) \<longrightarrow>
            ss_google_api_key (store (fst (session_runs rs w))) =
              ss_google_api_key (store w)) \<and>
         google_api_key (init uuid w) =
           (case ss_google_api_key (store w) of None \<Rightarrow> None | Some v \<Rightarrow> v) \<and>
         google_api_key (render_sidebar inp s) =
           (if api_key_input inp \<noteq> [] then Some (api_key_input inp) else google_api_key s) \<and>
         google_api_key (main_ui env inp s) = google_api_key s"
  using assms main_credential_set [of w env uuid inp] main_key_unchanged [of w inp env uuid]
    session_runs_credential [of w rs]
  by (simp add: render_sidebar_key init_def)

theorem credential_never_unset_witness:
  "credential_set ex_keyed_session \<and>
   api_key_input ex_clear = [] \<and>
   api_key_input ex_ask = [] \<and>
   ss_google_api_key (store (fst (main ex_env ''u-2'' ex_clear ex_keyed_session))) =
     Some (Some ''key-1'') \<and>
   ss_google_api_key (store (fst (session_runs
       [(ex_env, ''u-2'', ex_clear), (ex_env_failing, ''u-3'', ex_ask)] ex_keyed_session))) =
     Some (Some ''key-1'')"
proof -
  have k: "ss_google_api_key (store ex_keyed_session) = Some (Some ''key-1'')"
    by (simp add: ex_keyed_session_def world_of_def ex_chat_state_def)
  have cs: "credential_set ex_keyed_session"
    by (simp add: credential_set_def k)
  have i: "api_key_input ex_clear = []" "api_key_input ex_ask = []"
    by (simp_all add: ex_clear_def ex_ask_def)
  show ?thesis
    using credential_never_unset [OF cs, of ex_env "''u-2''" ex_clear
        "[(ex_env, ''u-2'', ex_clear), (ex_env_failing, ''u-3'', ex_ask)]"]
    by (simp add: k cs i del: session_runs.simps)
qed

subsection \<open>Construction of the collaborators\<close>

text \<open>
  C7. When a constructor raises, the load method catches the exception, shows an error
  message with its text and sets no handle. For the transcriber and the image describer the
  handle stays \<^verbatim>\<open>None\<close>, the dispatch then calls no method on it, and a later load tries
  and reports again. For the chatbot, \<^verbatim>\<open>load_pdf_chatbot\<close> returns \<^verbatim>\<open>None\<close> without
  assigning the attribute, \<^verbatim>\<open>render_pdf_chat_interface\<close> leaves the attribute \<^verbatim>\<open>None\<close>,
  and a later call reports again.
\<close>

theorem construction_failure_reported:
  "(audio_transcriber s = None \<and> AudioTranscriber env = Inl (Exception e) \<longrightarrow>
      load_audio_transcriber env s =
        s\<lparr>events := events s @
          [New_AudioTranscriber, St_error (''Failed to load Audio Transcriber: '' @ e)]\<rparr> \<and>
      (ext \<in> set [''.mp3'', ''.wav'', ''.mp4'', ''.avi''] \<longrightarrow>
         process env inp ''Transcription'' ext p s =
           s\<lparr>events := events s @
             [New_AudioTranscriber, St_error (''Failed to load Audio Transcriber: '' @ e)]\<rparr>) \<and>
      (AudioTranscriber env2 = Inl (Exception e2) \<longrightarrow>
         load_audio_transcriber env2 (load_audio_transcriber env s) =
           s\<lparr>events := events s @
             [New_AudioTranscriber, St_error (''Failed to load Audio Transcriber: '' @ e),
              New_AudioTranscriber, St_error (''Failed to load Audio Transcriber: '' @ e2)]\<rparr>)) \<and>
   (image_description_generator s = None \<and>
    QwenVLDescriptionGenerator env = Inl (Exception e) \<longrightarrow>
      load_image_description_generator env s =
        s\<lparr>events := events s @
          [New_QwenVLDescriptionGenerator,
           St_error (''Failed to load Image Description Generator: '' @ e)]\<rparr> \<and>
      (ext \<in> set [''.jpg'', ''.jpeg'', ''.png''] \<longrightarrow>
         process env inp ''Image Description'' ext p s =
           s\<lparr>events := events s @
             [New_QwenVLDescriptionGenerator,
              St_error (''Failed to load Image Description Generator: '' @ e)]\<rparr>) \<and>
      (QwenVLDescriptionGenerator env2 = Inl (Exception e2) \<longrightarrow>
         load_image_description_generator env2 (load_image_description_generator env s) =
           s\<lparr>events := events s @
             [New_QwenVLDescriptionGenerator,
              St_error (''Failed to load Image Description Generator: '' @ e),
              New_QwenVLDescriptionGenerator,
              St_error (''Failed to load Image Description Generator: '' @ e2)]\<rparr>)) \<and>
   (google_api_key s = Some key \<and> key \<noteq> [] \<and> PDFChatbot env p key = Inl (Exception e) \<longrightarrow>
      snd (load_pdf_chatbot env p s) = None \<and>
      pdf_chatbot (fst (load_pdf_chatbot env p s)) = pdf_chatbot s \<and>
      events (fst (load_pdf_chatbot env p s)) =
        events s @ [New_PDFChatbot p key, St_error (''Failed to load PDF Chatbot: '' @ e)] \<and>
      pdf_chatbot (render_pdf_chat_interface env inp p s) = None \<and>
      events (render_pdf_chat_interface env inp p s) =
        events s @ [New_PDFChatbot p key, St_error (''Failed to load PDF Chatbot: '' @ e)] \<and>
      (PDFChatbot env2 p key = Inl (Exception e2) \<longrightarrow>
         pdf_chatbot (render_pdf_chat_interface env2 inp2 p
                        (render_pdf_chat_interface env inp p s)) = None \<and>
         events (render_pdf_chat_interface env2 inp2 p
                   (render_pdf_chat_interface env inp p s)) =
           events s @ [New_PDFChatbot p key, St_error (''Failed to load PDF Chatbot: '' @ e),
                       New_PDFChatbot p key, St_error (''Failed to load PDF Chatbot: '' @ e2)]))"
proof (intro conjI impI)
  assume a: "audio_transcriber s = None \<and> AudioTranscriber env = Inl (Exception e)"
  then show "load_audio_transcriber env s =
        s\<lparr>events := events s @
          [New_AudioTranscriber, St_error (''Failed to load Audio Transcriber: '' @ e)]\<rparr>"
    by (simp add: load_audio_transcriber_failed)
  show "process env inp ''Transcription'' ext p s =
           s\<lparr>events := events s @
             [New_AudioTranscriber, St_error (''Failed to load Audio Transcriber: '' @ e)]\<rparr>"
    if "ext \<in> set [''.mp3'', ''.wav'', ''.mp4'', ''.avi'']"
    using a that by (simp add: process_transcription load_audio_transcriber_failed)
  assume "AudioTranscriber env2 = Inl (Exception e2)"
  with a show "load_audio_transcriber env2 (load_audio_transcriber env s) =
           s\<lparr>events := events s @
             [New_AudioTranscriber, St_error (''Failed to load Audio Transcriber: '' @ e),
              New_AudioTranscriber, St_error (''Failed to load Audio Transcriber: '' @ e2)]\<rparr>"
    by (simp add: load_audio_transcriber_failed)
next
  assume a: "image_description_generator s = None \<and>
    QwenVLDescriptionGenerator env = Inl (Exception e)"
  then show "load_image_description_generator env s =
        s\<lparr>events := events s @
          [New_QwenVLDescriptionGenerator,
           St_error (''Failed to load Image Description Generator: '' @ e)]\<rparr>"
    by (simp add: load_image_description_generator_failed)
  show "process env inp ''Image Description'' ext p s =
           s\<lparr>events := events s @
             [New_QwenVLDescriptionGenerator,
              St_error (''Failed to load Image Description Generator: '' @ e)]\<rparr>"
    if "ext \<in> set [''.jpg'', ''.jpeg'', ''.png'']"
    using a that by (simp add: process_image load_image_description_generator_failed)
  assume "QwenVLDescriptionGenerator env2 = Inl (Exception e2)"
  with a show "load_image_description_generator env2 (load_image_description_generator env s) =
           s\<lparr>events := events s @
             [New_QwenVLDescriptionGenerator,
              St_error (''Failed to load Image Description Generator: '' @ e),
              New_QwenVLDescriptionGenerator,
              St_error (''Failed to load Image Description Generator: '' @ e2)]\<rparr>"
    by (simp add: load_image_description_generator_failed)
next
  assume a: "google_api_key s = Some key \<and> key \<noteq> [] \<and> PDFChatbot env p key = Inl (Exception e)"
  then show "snd (load_pdf_chatbot env p s) = None"
    and "pdf_chatbot (fst (load_pdf_chatbot env p s)) = pdf_chatbot s"
    and "events (fst (load_pdf_chatbot env p s)) =
        events s @ [New_PDFChatbot p key, St_error (''Failed to load PDF Chatbot: '' @ e)]"
    and "pdf_chatbot (render_pdf_chat_interface env inp p s) = None"
    and "events (render_pdf_chat_interface env inp p s) =
        events s @ [New_PDFChatbot p key, St_error (''Failed to load PDF Chatbot: '' @ e)]"
    by (simp_all add: load_pdf_chatbot_failed render_pdf_failed)
  assume b: "PDFChatbot env2 p key = Inl (Exception e2)"
  have k: "google_api_key (render_pdf_chat_interface env inp p s) = Some key"
    using a by simp
  show "pdf_chatbot (render_pdf_chat_interface env2 inp2 p
                        (render_pdf_chat_interface env inp p s)) = None"
    using a b by (simp add: render_pdf_failed [OF k _ b])
  show "events (render_pdf_chat_interface env2 inp2 p
                   (render_pdf_chat_interface env inp p s)) =
           events s @ [New_PDFChatbot p key, St_error (''Failed to load PDF Chatbot: '' @ e),
                       New_PDFChatbot p key, St_error (''Failed to load PDF Chatbot: '' @ e2)]"
    using a b by (simp add: render_pdf_failed [OF k _ b]) (simp add: render_pdf_failed)
qed

theorem construction_failure_reported_witness:
  "audio_transcriber ex_chat_state = None \<and>
   AudioTranscriber ex_env_failing = Inl (Exception ''no model'') \<and>
   load_audio_transcriber ex_env_failing ex_chat_state =
     ex_chat_state\<lparr>events :=
       [New_AudioTranscriber, St_error ''Failed to load Audio Transcriber: no model'']\<rparr> \<and>
   process ex_env_failing ex_ask ''Transcription'' ''.mp3'' ''temp/old.pdf'' ex_chat_state =
     ex_chat_state\<lparr>events :=
       [New_AudioTranscriber, St_error ''Failed to load Audio Transcriber: no model'']\<rparr> \<and>
   image_description_generator ex_chat_state = None \<and>
   QwenVLDescriptionGenerator ex_env_failing = Inl (Exception ''no model'') \<and>
   load_image_description_generator ex_env_failing ex_chat_state =
     ex_chat_state\<lparr>events :=
       [New_QwenVLDescriptionGenerator,
        St_error ''Failed to load Image Description Generator: no model'']\<rparr> \<and>
   google_api_key ex_chat_state = Some ''key-1'' \<and> ''key-1'' \<noteq> [] \<and>
   PDFChatbot ex_env_failing ''temp/old.pdf'' ''key-1'' = Inl (Exception ''bad key'') \<and>
   pdf_chatbot ex_chat_state = Some (Obj 7) \<and>
   pdf_chatbot (render_pdf_chat_interface ex_env_failing ex_ask ''temp/old.pdf'' ex_chat_state) =
     None \<and>
   events (render_pdf_chat_interface ex_env_failing ex_ask ''temp/old.pdf'' ex_chat_state) =
     [New_PDFChatbot ''temp/old.pdf'' ''key-1'', St_error ''Failed to load PDF Chatbot: bad key'']"
proof -
  have s: "audio_transcriber ex_chat_state = None"
    "image_description_generator ex_chat_state = None"
    "google_api_key ex_chat_state = Some ''key-1''"
    "pdf_chatbot ex_chat_state = Some (Obj 7)"
    "events ex_chat_state = []"
    by (simp_all add: ex_chat_state_def)
  have f: "AudioTranscriber ex_env_failing = Inl (Exception ''no model'')"
    "QwenVLDescriptionGenerator ex_env_failing = Inl (Exception ''no model'')"
    "PDFChatbot ex_env_failing ''temp/old.pdf'' ''key-1'' = Inl (Exception ''bad key'')"
    by (simp_all add: ex_env_failing_def)
  show ?thesis
    using construction_failure_reported [of ex_chat_state ex_env_failing "''no model''"
        "''.mp3''" ex_ask "''temp/old.pdf''" ex_env_failing "''no model''" "''key-1''"
        ex_ask]
      construction_failure_reported [of ex_chat_state ex_env_failing "''bad key''"
        "''.mp3''" ex_ask "''temp/old.pdf''" ex_env_failing "''bad key''" "''key-1''"
        ex_ask]
    by (simp add: s f)
qed

text \<open>
  C8. The claim is that within one session the transcription handle, and likewise the
  image-description handle, is constructed at most once and reused by every later
  invocation. The code does not do that. The handles are attributes of the assistant
  object; \<^verbatim>\<open>main\<close> makes a new object on every run and \<^verbatim>\<open>__init__\<close> sets them to
  \<^verbatim>\<open>None\<close>, so the guard of the load finds the handle unset in every run and the
  constructor is called again. Two runs over the same store, each with the upload
  \<^verbatim>\<open>clip.mp4\<close>, construct the transcriber twice; two runs with \<^verbatim>\<open>photo.JPG\<close> construct
  the image describer twice.
\<close>

theorem handles_rebuilt_each_run:
  "snd (session_runs
         [(ex_env, ''u-1'', ex_upload ''clip.mp4'' ''Auto Detect''),
          (ex_env, ''u-2'', ex_upload ''clip.mp4'' ''Auto Detect'')] new_session) =
     [New_AudioTranscriber, St_success ''Audio Transcriber initialized successfully!'',
      Call_transcribe (Obj 4) ''temp/clip.mp4'', St_subheader ''Transcription'',
      St_write ''hello world'',
      New_AudioTranscriber, St_success ''Audio Transcriber initialized successfully!'',
      Call_transcribe (Obj 4) ''temp/clip.mp4'', St_subheader ''Transcription'',
      St_write ''hello world''] \<and>
   count_list
     (snd (session_runs
            [(ex_env, ''u-1'', ex_upload ''clip.mp4'' ''Auto Detect''),
             (ex_env, ''u-2'', ex_upload ''clip.mp4'' ''Auto Detect'')] new_session))
     New_AudioTranscriber = 2 \<and>
   snd (session_runs
         [(ex_env, ''u-1'', ex_upload ''photo.JPG'' ''Auto Detect''),
          (ex_env, ''u-2'', ex_upload ''photo.JPG'' ''Auto Detect'')] new_session) =
     [New_QwenVLDescriptionGenerator,
      St_success ''Image Description Generator initialized successfully!'',
      Call_generate_description (Obj 6) ''temp/photo.JPG'', St_subheader ''Image Description'',
      St_write ''a cat on a mat'',
      New_QwenVLDescriptionGenerator,
      St_success ''Image Description Generator initialized successfully!'',
      Call_generate_description (Obj 6) ''temp/photo.JPG'', St_subheader ''Image Description'',
      St_write ''a cat on a mat''] \<and>
   count_list
     (snd (session_runs
            [(ex_env, ''u-1'', ex_upload ''photo.JPG'' ''Auto Detect''),
             (ex_env, ''u-2'', ex_upload ''photo.JPG'' ''Auto Detect'')] new_session))
     New_QwenVLDescriptionGenerator = 2"
  by (simp add: split_beta Let_def main_clip_events main_photo_events)

end
